theory Spec2Isabelle
  imports Main "HOL-Library.Word" "HOL-Library.Sublist"
begin

section \<open>Strings\<close>

text \<open>
  A JavaScript string is a sequence of UTF-16 code units. Titles and error messages are
  kept as such sequences, so that \<open>trim\<close> below removes exactly what
  \<open>String.prototype.trim\<close> removes.
\<close>

type_synonym js_string = "16 word list"

text \<open>A literal of the source, all of whose characters are ASCII.\<close>

definition ascii :: "string \<Rightarrow> js_string" where
  "ascii s = map of_char s"

text \<open>
  The code units \<open>trim\<close> strips: ECMAScript's WhiteSpace (TAB, VT, FF, ZWNBSP and the
  Unicode space separators) and LineTerminator (LF, CR, LS, PS). All of them lie in the
  basic plane, so each is one code unit.
\<close>

definition is_white_space :: "16 word \<Rightarrow> bool" where
  "is_white_space c \<longleftrightarrow>
     c = 0x0009 \<or> c = 0x000A \<or> c = 0x000B \<or> c = 0x000C \<or> c = 0x000D \<or>
     c = 0x0020 \<or> c = 0x00A0 \<or> c = 0x1680 \<or>
     (0x2000 \<le> c \<and> c \<le> 0x200A) \<or>
     c = 0x2028 \<or> c = 0x2029 \<or> c = 0x202F \<or> c = 0x205F \<or>
     c = 0x3000 \<or> c = 0xFEFF"

definition trim :: "js_string \<Rightarrow> js_string" where
  "trim s = rev (dropWhile is_white_space (rev (dropWhile is_white_space s)))"

section \<open>Data model\<close>

text \<open>
  A todo item as the remote service returns it. The identifier is opaque: the code only
  compares it with \<open>===\<close>, so it is a type parameter.
\<close>

record 'i todo =
  todo_id :: 'i
  title :: js_string
  completed :: bool

text \<open>The three values the \<open>filter\<close> state takes.\<close>

datatype view_filter = All | Active | Completed

text \<open>The requests the component issues through \<open>fetch\<close>.\<close>

datatype 'i request =
    GET_todos
  | POST_todo js_string
  | PATCH_completed 'i bool
  | PATCH_title 'i js_string
  | DELETE_todo 'i

text \<open>
  What a \<open>fetch\<close> call comes back with: the promise rejects with an error carrying a
  message, or it resolves with a response whose \<open>ok\<close> flag is given and whose
  \<open>json()\<close> either rejects with a message (\<open>Inl\<close>) or yields the decoded body.
  A response with a non-success HTTP status is a resolved promise with \<open>ok = False\<close>.
\<close>

datatype 'a fetch_result =
    Rejected js_string
  | Resolved bool "js_string + 'a"

text \<open>
  The state hooks of \<open>App\<close>, together with \<open>sent\<close>, the requests issued so far in
  the order of the \<open>fetch\<close> calls (a record of the effect, not a state hook).
\<close>

record 'i app_state =
  todos :: "'i todo list"
  newTitle :: js_string
  filterV :: view_filter
  loading :: bool
  error :: js_string
  sent :: "'i request list"

section \<open>Derived values\<close>

definition filtered :: "'i app_state \<Rightarrow> 'i todo list" where
  "filtered s =
     (if filterV s = Active then filter (\<lambda>t. \<not> completed t) (todos s)
      else if filterV s = Completed then filter (\<lambda>t. completed t) (todos s)
      else todos s)"

definition remaining :: "'i app_state \<Rightarrow> nat" where
  "remaining s = length (filter (\<lambda>t. \<not> completed t) (todos s))"

section \<open>Operations of the list controller\<close>

text \<open>
  Each asynchronous handler is split where it awaits: \<open>_begin\<close> is what runs
  synchronously up to the \<open>fetch\<close>, \<open>_resume\<close> is the continuation once the outcome
  of the request is known. The handler itself is their composition, that is, the handler
  run with no other handler in between.
\<close>

subsection \<open>fetchTodos\<close>

definition fetchTodos_begin :: "'i app_state \<Rightarrow> 'i app_state" where
  "fetchTodos_begin s = s\<lparr>loading := True, error := [], sent := sent s @ [GET_todos]\<rparr>"

definition fetchTodos_resume :: "'i todo list fetch_result \<Rightarrow> 'i app_state \<Rightarrow> 'i app_state" where
  "fetchTodos_resume r s =
     (case r of
        Rejected m \<Rightarrow> s\<lparr>error := m\<rparr>
      | Resolved ok body \<Rightarrow>
          if \<not> ok then s\<lparr>error := ascii ''Failed to load todos''\<rparr>
          else (case body of
                  Inl m \<Rightarrow> s\<lparr>error := m\<rparr>
                | Inr data \<Rightarrow> s\<lparr>todos := data\<rparr>))
     \<lparr>loading := False\<rparr>"

definition fetchTodos :: "'i todo list fetch_result \<Rightarrow> 'i app_state \<Rightarrow> 'i app_state" where
  "fetchTodos r s = fetchTodos_resume r (fetchTodos_begin s)"

text \<open>
  The ways the \<open>try\<close> block of \<open>fetchTodos\<close> reaches its \<open>catch\<close>: the request
  rejects, the status is not a success, or the body does not decode.
\<close>

definition load_failed :: "'a fetch_result \<Rightarrow> bool" where
  "load_failed r = (case r of Rejected m \<Rightarrow> True | Resolved ok body \<Rightarrow> \<not> ok \<or> isl body)"

subsection \<open>The error a request ends in\<close>

text \<open>
  \<open>toggleTodo\<close>, \<open>renameTodo\<close> and \<open>deleteTodo\<close> await one \<open>fetch\<close> inside a
  \<open>try\<close> and throw \<open>new Error(msg)\<close> when \<open>res.ok\<close> is false. \<open>caught msg r\<close> is
  the message of the error their \<open>catch\<close> receives, if any.
\<close>

definition caught :: "js_string \<Rightarrow> 'a fetch_result \<Rightarrow> js_string option" where
  "caught msg r =
     (case r of
        Rejected m \<Rightarrow> Some m
      | Resolved ok body \<Rightarrow> if \<not> ok then Some msg else None)"

subsection \<open>addTodo\<close>

text \<open>
  \<open>addTodo\<close> reads the title from the \<open>newTitle\<close> state. An empty trimmed title is
  falsy, and the handler returns before anything else.
\<close>

definition addTodo :: "'i todo fetch_result \<Rightarrow> 'i app_state \<Rightarrow> 'i app_state" where
  "addTodo r s =
     (if trim (newTitle s) = [] then s
      else
        let s1 = s\<lparr>loading := True, error := [],
                   sent := sent s @ [POST_todo (trim (newTitle s))]\<rparr>
        in (case r of
              Rejected m \<Rightarrow> s1\<lparr>error := m\<rparr>
            | Resolved ok body \<Rightarrow>
                if \<not> ok then s1\<lparr>error := ascii ''Failed to add todo''\<rparr>
                else (case body of
                        Inl m \<Rightarrow> s1\<lparr>error := m\<rparr>
                      | Inr created \<Rightarrow> s1\<lparr>todos := created # todos s1, newTitle := []\<rparr>))
           \<lparr>loading := False\<rparr>)"

subsection \<open>toggleTodo\<close>

definition toggleTodo_begin :: "'i \<Rightarrow> bool \<Rightarrow> 'i app_state \<Rightarrow> 'i app_state" where
  "toggleTodo_begin i c s =
     s\<lparr>error := [],
       todos := map (\<lambda>t. if todo_id t = i then t\<lparr>completed := c\<rparr> else t) (todos s),
       sent := sent s @ [PATCH_completed i c]\<rparr>"

definition toggleTodo_resume :: "'i \<Rightarrow> bool \<Rightarrow> 'a fetch_result \<Rightarrow> 'i app_state \<Rightarrow> 'i app_state" where
  "toggleTodo_resume i c r s =
     (case caught (ascii ''Failed to update todo'') r of
        None \<Rightarrow> s
      | Some m \<Rightarrow>
          s\<lparr>error := m,
            todos := map (\<lambda>t. if todo_id t = i then t\<lparr>completed := \<not> c\<rparr> else t) (todos s)\<rparr>)"

definition toggleTodo :: "'i \<Rightarrow> bool \<Rightarrow> 'a fetch_result \<Rightarrow> 'i app_state \<Rightarrow> 'i app_state" where
  "toggleTodo i c r s = toggleTodo_resume i c r (toggleTodo_begin i c s)"

subsection \<open>renameTodo\<close>

text \<open>
  On failure \<open>renameTodo\<close> and \<open>deleteTodo\<close> call \<open>fetchTodos()\<close> right after
  \<open>setError\<close>, in the same synchronous run; \<open>rl\<close> is the outcome of that load.
\<close>

definition renameTodo_begin :: "'i \<Rightarrow> js_string \<Rightarrow> 'i app_state \<Rightarrow> 'i app_state" where
  "renameTodo_begin i ttl s =
     s\<lparr>error := [],
       todos := map (\<lambda>t. if todo_id t = i then t\<lparr>title := trim ttl\<rparr> else t) (todos s),
       sent := sent s @ [PATCH_title i (trim ttl)]\<rparr>"

definition renameTodo ::
  "'i \<Rightarrow> js_string \<Rightarrow> 'a fetch_result \<Rightarrow> 'i todo list fetch_result \<Rightarrow> 'i app_state \<Rightarrow> 'i app_state"
where
  "renameTodo i ttl r rl s =
     (if trim ttl = [] then s
      else
        let s1 = renameTodo_begin i ttl s
        in (case caught (ascii ''Failed to rename todo'') r of
              None \<Rightarrow> s1
            | Some m \<Rightarrow> fetchTodos rl (s1\<lparr>error := m\<rparr>)))"

subsection \<open>deleteTodo\<close>

definition deleteTodo_begin :: "'i \<Rightarrow> 'i app_state \<Rightarrow> 'i app_state" where
  "deleteTodo_begin i s =
     s\<lparr>error := [],
       todos := filter (\<lambda>t. todo_id t \<noteq> i) (todos s),
       sent := sent s @ [DELETE_todo i]\<rparr>"

definition deleteTodo ::
  "'i \<Rightarrow> 'a fetch_result \<Rightarrow> 'i todo list fetch_result \<Rightarrow> 'i app_state \<Rightarrow> 'i app_state"
where
  "deleteTodo i r rl s =
     (let s1 = deleteTodo_begin i s
      in (case caught (ascii ''Failed to delete todo'') r of
            None \<Rightarrow> s1
          | Some m \<Rightarrow> fetchTodos rl (s1\<lparr>error := m\<rparr>)))"

subsection \<open>clearCompleted\<close>

text \<open>
  One \<open>DELETE\<close> is issued per completed item, in the order of the collection;
  \<open>rs k\<close> is the outcome of the \<open>k\<close>-th of them. \<open>Promise.all\<close> rejects when one of
  its promises rejects, and the handler looks at nothing else of the outcomes: the
  responses are not read.
\<close>

definition is_rejected :: "'a fetch_result \<Rightarrow> bool" where
  "is_rejected r = (case r of Rejected m \<Rightarrow> True | Resolved ok body \<Rightarrow> False)"

definition clearCompleted :: "(nat \<Rightarrow> 'a fetch_result) \<Rightarrow> 'i app_state \<Rightarrow> 'i app_state" where
  "clearCompleted rs s =
     (let completedTodos = filter (\<lambda>t. completed t) (todos s)
      in if length completedTodos = 0 then s
         else
           let toDelete = map todo_id completedTodos;
               prev = todos s;
               s1 = s\<lparr>error := [],
                      todos := filter (\<lambda>t. \<not> completed t) prev,
                      sent := sent s @ map DELETE_todo toDelete\<rparr>
           in if list_ex (\<lambda>k. is_rejected (rs k)) [0..<length toDelete]
              then s1\<lparr>error := ascii ''Failed to clear completed'', todos := prev\<rparr>
              else s1)"

section \<open>The item editor\<close>

text \<open>
  The state hooks of \<open>TodoRow\<close>; \<open>draft_title\<close> is the hook the source calls
  \<open>title\<close>, renamed apart from the field of the item.
\<close>

record row_state =
  editing :: bool
  draft_title :: js_string

text \<open>
  \<open>handleKey\<close> returns the new state of the row and the arguments of the calls it made
  to the \<open>onRename\<close> callback, in order.
\<close>

definition handleKey :: "'i todo \<Rightarrow> js_string \<Rightarrow> row_state \<Rightarrow> row_state \<times> js_string list" where
  "handleKey todo key row =
     (if key = ascii ''Enter'' then (row\<lparr>editing := False\<rparr>, [draft_title row])
      else if key = ascii ''Escape'' then (row\<lparr>draft_title := title todo, editing := False\<rparr>, [])
      else (row, []))"

text \<open>The callback \<open>App\<close> hands to the row of \<open>todo\<close>.\<close>

definition onRename ::
  "'i todo \<Rightarrow> js_string \<Rightarrow> 'a fetch_result \<Rightarrow> 'i todo list fetch_result \<Rightarrow> 'i app_state \<Rightarrow> 'i app_state"
where
  "onRename todo ttl = renameTodo (todo_id todo) ttl"

section \<open>The derived values as the specification words them\<close>

definition spec_filter_predicate :: "view_filter \<Rightarrow> 'i todo \<Rightarrow> bool" where
  "spec_filter_predicate f t =
     (case f of All \<Rightarrow> True | Active \<Rightarrow> \<not> completed t | Completed \<Rightarrow> completed t)"

section \<open>Properties\<close>

lemma trim_empty_iff: "trim s = [] \<longleftrightarrow> list_all is_white_space s"
proof
  assume e: "trim s = []"
  show "list_all is_white_space s"
  proof (rule ccontr)
    assume "\<not> list_all is_white_space s"
    then have ne: "dropWhile is_white_space s \<noteq> []"
      by (simp add: list_all_iff)
    then have "\<not> is_white_space (hd (dropWhile is_white_space s))"
      by (rule hd_dropWhile)
    moreover from e have "\<forall>c\<in>set (dropWhile is_white_space s). is_white_space c"
      by (simp add: trim_def)
    with ne have "is_white_space (hd (dropWhile is_white_space s))"
      by simp
    ultimately show False by simp
  qed
next
  assume "list_all is_white_space s"
  then show "trim s = []"
    by (auto simp: trim_def list_all_iff dest: set_dropWhileD)
qed

subsection \<open>A failed load\<close>

text \<open>
  C9. When a load fails, whatever the cause, the collection is the one from before the
  load; the title draft and the filter are untouched as well. The loading flag is back
  to false and the error message is the one of the failure.
\<close>

theorem fetchTodos_failure_keeps_todos:
  "load_failed r \<Longrightarrow>
     todos (fetchTodos r s) = todos s \<and>
     newTitle (fetchTodos r s) = newTitle s \<and>
     filterV (fetchTodos r s) = filterV s \<and>
     loading (fetchTodos r s) = False \<and>
     error (fetchTodos r s) =
       (case r of Rejected m \<Rightarrow> m
        | Resolved ok body \<Rightarrow>
            if \<not> ok then ascii ''Failed to load todos'' else projl body)"
  by (auto simp: load_failed_def fetchTodos_def fetchTodos_resume_def fetchTodos_begin_def
      split: fetch_result.splits sum.splits)

theorem fetchTodos_failure_keeps_todos_witness:
  "load_failed (Resolved False (Inr [] :: js_string + nat todo list)) \<and>
   todos (fetchTodos (Resolved False (Inr []))
      \<lparr>todos = [\<lparr>todo_id = 1::nat, title = ascii ''a'', completed = False\<rparr>],
       newTitle = ascii ''b'', filterV = Active, loading = False, error = [], sent = []\<rparr>)
     = [\<lparr>todo_id = 1, title = ascii ''a'', completed = False\<rparr>] \<and>
   error (fetchTodos (Resolved False (Inr []))
      \<lparr>todos = [\<lparr>todo_id = 1::nat, title = ascii ''a'', completed = False\<rparr>],
       newTitle = ascii ''b'', filterV = Active, loading = False, error = [], sent = []\<rparr>)
     = ascii ''Failed to load todos''"
proof -
  have h: "load_failed (Resolved False (Inr [] :: js_string + nat todo list))"
    by (simp add: load_failed_def)
  show ?thesis
    using h fetchTodos_failure_keeps_todos [OF h,
        of "\<lparr>todos = [\<lparr>todo_id = 1::nat, title = ascii ''a'', completed = False\<rparr>],
             newTitle = ascii ''b'', filterV = Active, loading = False, error = [],
             sent = []\<rparr>"]
    by simp
qed

subsection \<open>A failed toggle\<close>

lemma toggleTodo_failure_sets_negation:
  "caught (ascii ''Failed to update todo'') r = Some m \<Longrightarrow>
     todos (toggleTodo i c r s) =
       map (\<lambda>t. if todo_id t = i then t\<lparr>completed := \<not> c\<rparr> else t) (todos s) \<and>
     error (toggleTodo i c r s) = m"
  by (simp add: toggleTodo_def toggleTodo_resume_def toggleTodo_begin_def o_def)

text \<open>
  The \<open>catch\<close> of \<open>toggleTodo\<close> writes the negation of the requested flag. That is
  the flag from before whenever the call asked for a flip of every item with the
  identifier.
\<close>

lemma toggleTodo_failure_reverts_a_flip:
  assumes "caught (ascii ''Failed to update todo'') r = Some m"
    and "\<forall>t\<in>set (todos s). todo_id t = i \<longrightarrow> completed t = (\<not> c)"
  shows "todos (toggleTodo i c r s) = todos s"
proof -
  have "map (\<lambda>t. if todo_id t = i then t\<lparr>completed := \<not> c\<rparr> else t) (todos s)
          = map (\<lambda>t. t) (todos s)"
    using assms(2) by (intro map_cong) auto
  with assms(1) show ?thesis
    by (simp add: toggleTodo_failure_sets_negation)
qed

text \<open>
  C1. The flag after a failed toggle is claimed to be the flag from before the call,
  whatever flag the call requested. Here the item is completed, the call requests
  \<open>completed = True\<close> and the update comes back with a non-success status: the item
  ends up not completed.
\<close>

theorem toggleTodo_failure_at_unchanged_flag:
  "todos (toggleTodo (1::nat) True (Resolved False (Inr ()))
      \<lparr>todos = [\<lparr>todo_id = 1, title = ascii ''a'', completed = True\<rparr>], newTitle = [],
       filterV = All, loading = False, error = [], sent = []\<rparr>)
   = [\<lparr>todo_id = 1, title = ascii ''a'', completed = False\<rparr>]"
  by (simp add: toggleTodo_def toggleTodo_resume_def toggleTodo_begin_def caught_def)

subsection \<open>A failed clearCompleted\<close>

text \<open>When one of the requests rejects, the snapshot is put back.\<close>

lemma clearCompleted_rejection_restores:
  assumes "k < length (filter (\<lambda>t. completed t) (todos s))" and "is_rejected (rs k)"
  shows "clearCompleted rs s =
           s\<lparr>error := ascii ''Failed to clear completed'',
             sent := sent s @
               map DELETE_todo (map todo_id (filter (\<lambda>t. completed t) (todos s)))\<rparr>"
proof -
  from assms(1) have ne: "filter (\<lambda>t. completed t) (todos s) \<noteq> []" by auto
  from assms have
    "list_ex (\<lambda>k. is_rejected (rs k)) [0..<length (filter (\<lambda>t. completed t) (todos s))]"
    by (auto simp: list_ex_iff)
  with ne show ?thesis
    by (simp add: clearCompleted_def Let_def)
qed

text \<open>
  C2. A delete that comes back with a non-success HTTP status is claimed to restore the
  snapshot and to set the clear-failure message. Here both items are completed and both
  deletes resolve with \<open>ok = False\<close>: the collection stays empty and no error is set.
\<close>

theorem clearCompleted_http_failure_not_reverted:
  "clearCompleted (\<lambda>k. Resolved False (Inr ()))
      \<lparr>todos = [\<lparr>todo_id = 1::nat, title = ascii ''a'', completed = True\<rparr>,
                \<lparr>todo_id = 2, title = ascii ''b'', completed = True\<rparr>],
       newTitle = [], filterV = All, loading = False, error = [], sent = []\<rparr>
   = \<lparr>todos = [], newTitle = [], filterV = All, loading = False, error = [],
      sent = [DELETE_todo 1, DELETE_todo 2]\<rparr>"
  by (simp add: clearCompleted_def is_rejected_def)

subsection \<open>A failed delete\<close>

text \<open>
  After a failed delete the load is issued, and the error message left at the end is the
  one of the load: empty when the load succeeds.
\<close>

lemma deleteTodo_failure_error:
  "caught (ascii ''Failed to delete todo'') r = Some m \<Longrightarrow>
     sent (deleteTodo i r rl s) = sent s @ [DELETE_todo i, GET_todos] \<and>
     error (deleteTodo i r rl s) =
       (case rl of
          Rejected m' \<Rightarrow> m'
        | Resolved ok body \<Rightarrow>
            if \<not> ok then ascii ''Failed to load todos''
            else (case body of Inl m' \<Rightarrow> m' | Inr data \<Rightarrow> []))"
  by (simp add: deleteTodo_def deleteTodo_begin_def fetchTodos_def fetchTodos_begin_def
      fetchTodos_resume_def split: fetch_result.splits sum.splits)

text \<open>
  C3. After a failed delete and the load it triggers, the error message is claimed to
  be the delete-failure message. Here the delete of item 5 comes back with a non-success
  status and the load succeeds: the load is issued, and the error message is empty.
\<close>

theorem deleteTodo_failure_message_cleared:
  "deleteTodo (5::nat) (Resolved False (Inr ()))
      (Resolved True (Inr [\<lparr>todo_id = 5, title = ascii ''a'', completed = False\<rparr>]))
      \<lparr>todos = [\<lparr>todo_id = 5, title = ascii ''a'', completed = False\<rparr>], newTitle = [],
       filterV = All, loading = False, error = [], sent = []\<rparr>
   = \<lparr>todos = [\<lparr>todo_id = 5, title = ascii ''a'', completed = False\<rparr>], newTitle = [],
      filterV = All, loading = False, error = [], sent = [DELETE_todo 5, GET_todos]\<rparr>"
  by (simp add: deleteTodo_def deleteTodo_begin_def caught_def fetchTodos_def
      fetchTodos_begin_def fetchTodos_resume_def)

subsection \<open>Confirming an edit\<close>

text \<open>
  The row calls \<open>onRename\<close> on Enter whatever the draft is: with a draft of two blanks
  the callback is invoked, with the two blanks, although the trimmed draft is empty.
\<close>

theorem handleKey_confirm_empty_draft:
  "snd (handleKey \<lparr>todo_id = 1::nat, title = ascii ''a'', completed = False\<rparr> (ascii ''Enter'')
          \<lparr>editing = True, draft_title = ascii ''  ''\<rparr>) = [ascii ''  ''] \<and>
   trim (ascii ''  '') = []"
  by (simp add: handleKey_def trim_def ascii_def is_white_space_def)

text \<open>
  C4, as the code has it. The confirm action always invokes the rename callback, once,
  with the draft title as it stands, untrimmed. The test for an empty trimmed title and
  the trimming are in \<open>renameTodo\<close>, which the callback runs: with an empty trimmed
  draft nothing changes and no request is issued; otherwise the first request issued is
  the update of the title to the trimmed draft.
\<close>

theorem confirm_passes_draft_rename_trims:
  "handleKey todo (ascii ''Enter'') row = (row\<lparr>editing := False\<rparr>, [draft_title row]) \<and>
   (trim (draft_title row) = [] \<longrightarrow> onRename todo (draft_title row) r rl s = s) \<and>
   (trim (draft_title row) \<noteq> [] \<longrightarrow>
      (\<exists>rest. sent (onRename todo (draft_title row) r rl s) =
         sent s @ PATCH_title (todo_id todo) (trim (draft_title row)) # rest))"
  by (auto simp: handleKey_def onRename_def renameTodo_def renameTodo_begin_def Let_def
      fetchTodos_def fetchTodos_begin_def fetchTodos_resume_def
      split: option.splits fetch_result.splits sum.splits)

theorem confirm_passes_draft_rename_trims_witness:
  "handleKey \<lparr>todo_id = 1::nat, title = ascii ''a'', completed = False\<rparr> (ascii ''Enter'')
      \<lparr>editing = True, draft_title = ascii '' b ''\<rparr>
     = (\<lparr>editing = False, draft_title = ascii '' b ''\<rparr>, [ascii '' b '']) \<and>
   trim (ascii '' b '') \<noteq> [] \<and>
   (\<exists>rest. sent (onRename \<lparr>todo_id = 1::nat, title = ascii ''a'', completed = False\<rparr>
        (ascii '' b '') (Resolved True (Inr ())) (Resolved True (Inr []))
        \<lparr>todos = [\<lparr>todo_id = 1::nat, title = ascii ''a'', completed = False\<rparr>],
         newTitle = [], filterV = All, loading = False, error = [], sent = []\<rparr>)
      = PATCH_title 1 (ascii ''b'') # rest) \<and>
   trim (ascii ''  '') = [] \<and>
   onRename \<lparr>todo_id = 1::nat, title = ascii ''a'', completed = False\<rparr>
        (ascii ''  '') (Resolved True (Inr ())) (Resolved True (Inr []))
        \<lparr>todos = [\<lparr>todo_id = 1::nat, title = ascii ''a'', completed = False\<rparr>],
         newTitle = [], filterV = All, loading = False, error = [], sent = []\<rparr>
     = \<lparr>todos = [\<lparr>todo_id = 1::nat, title = ascii ''a'', completed = False\<rparr>],
         newTitle = [], filterV = All, loading = False, error = [], sent = []\<rparr>"
proof -
  have t1: "trim (ascii '' b '') = ascii ''b''"
    by (simp add: trim_def ascii_def is_white_space_def)
  have t2: "trim (ascii ''  '') = []"
    by (simp add: trim_def ascii_def is_white_space_def)
  have n1: "ascii ''b'' \<noteq> []"
    by (simp add: ascii_def)
  show ?thesis
    using confirm_passes_draft_rename_trims
      [of "\<lparr>todo_id = 1::nat, title = ascii ''a'', completed = False\<rparr>"
          "\<lparr>editing = True, draft_title = ascii '' b ''\<rparr>"
          "Resolved True (Inr ())" "Resolved True (Inr [])"
          "\<lparr>todos = [\<lparr>todo_id = 1::nat, title = ascii ''a'', completed = False\<rparr>],
            newTitle = [], filterV = All, loading = False, error = [], sent = []\<rparr>"]
      confirm_passes_draft_rename_trims
      [of "\<lparr>todo_id = 1::nat, title = ascii ''a'', completed = False\<rparr>"
          "\<lparr>editing = True, draft_title = ascii ''  ''\<rparr>"
          "Resolved True (Inr ())" "Resolved True (Inr [])"
          "\<lparr>todos = [\<lparr>todo_id = 1::nat, title = ascii ''a'', completed = False\<rparr>],
            newTitle = [], filterV = All, loading = False, error = [], sent = []\<rparr>"]
    by (simp add: t1 t2 n1)
qed

subsection \<open>A successful rename\<close>

text \<open>
  C5. After a successful rename with a title that is not empty once trimmed, the
  collection has the same length; at every position, an item with the identifier is the
  item from before with the trimmed title (same identifier and flag), and an item with
  another identifier is the item from before.
\<close>

theorem renameTodo_success_frame:
  assumes "trim ttl \<noteq> []"
  shows "length (todos (renameTodo i ttl (Resolved True b) rl s)) = length (todos s) \<and>
     (\<forall>k<length (todos s).
        (todo_id (todos s ! k) = i \<longrightarrow>
           todos (renameTodo i ttl (Resolved True b) rl s) ! k = (todos s ! k)\<lparr>title := trim ttl\<rparr>) \<and>
        (todo_id (todos s ! k) \<noteq> i \<longrightarrow>
           todos (renameTodo i ttl (Resolved True b) rl s) ! k = todos s ! k))"
  using assms by (simp add: renameTodo_def renameTodo_begin_def caught_def)

theorem renameTodo_success_frame_witness:
  "trim (ascii '' x '') \<noteq> [] \<and>
   todos (renameTodo (1::nat) (ascii '' x '') (Resolved True (Inr ())) (Resolved True (Inr []))
      \<lparr>todos = [\<lparr>todo_id = 1, title = ascii ''a'', completed = True\<rparr>,
                \<lparr>todo_id = 2, title = ascii ''b'', completed = False\<rparr>],
       newTitle = [], filterV = All, loading = False, error = [], sent = []\<rparr>) ! 0
     = \<lparr>todo_id = 1, title = ascii ''x'', completed = True\<rparr> \<and>
   todos (renameTodo (1::nat) (ascii '' x '') (Resolved True (Inr ())) (Resolved True (Inr []))
      \<lparr>todos = [\<lparr>todo_id = 1, title = ascii ''a'', completed = True\<rparr>,
                \<lparr>todo_id = 2, title = ascii ''b'', completed = False\<rparr>],
       newTitle = [], filterV = All, loading = False, error = [], sent = []\<rparr>) ! 1
     = \<lparr>todo_id = 2, title = ascii ''b'', completed = False\<rparr>"
proof -
  have t: "trim (ascii '' x '') = ascii ''x''"
    by (simp add: trim_def ascii_def is_white_space_def)
  have n: "ascii ''x'' \<noteq> []"
    by (simp add: ascii_def)
  have h: "trim (ascii '' x '') \<noteq> []"
    by (simp add: t n)
  show ?thesis
    using h renameTodo_success_frame [OF h, of "1::nat" "Inr ()" "Resolved True (Inr [])"
        "\<lparr>todos = [\<lparr>todo_id = 1, title = ascii ''a'', completed = True\<rparr>,
                  \<lparr>todo_id = 2, title = ascii ''b'', completed = False\<rparr>],
          newTitle = [], filterV = All, loading = False, error = [], sent = []\<rparr>"]
    by (simp add: t)
qed

subsection \<open>The filtered view and the remaining count\<close>

text \<open>
  C6. The filtered view is the collection filtered by the predicate of the filter, the
  remaining count is the number of positions holding an item that is not completed, and
  with the filter on active and a collection of one completed and one active item, in
  either order, the view is exactly the active item and the count is 1.
\<close>

theorem filtered_remaining_spec:
  "filtered s = filter (spec_filter_predicate (filterV s)) (todos s) \<and>
   remaining s = card {k. k < length (todos s) \<and> \<not> completed (todos s ! k)} \<and>
   (filterV s = Active \<and> completed a \<and> \<not> completed b \<and> (todos s = [a, b] \<or> todos s = [b, a])
      \<longrightarrow> filtered s = [b] \<and> remaining s = 1)"
proof -
  have 1: "filtered s = filter (spec_filter_predicate (filterV s)) (todos s)"
    by (cases "filterV s") (auto simp: filtered_def spec_filter_predicate_def intro: filter_cong)
  have 2: "remaining s = card {k. k < length (todos s) \<and> \<not> completed (todos s ! k)}"
    by (simp add: remaining_def length_filter_conv_card)
  have 3: "filterV s = Active \<and> completed a \<and> \<not> completed b \<and> (todos s = [a, b] \<or> todos s = [b, a])
      \<longrightarrow> filtered s = [b] \<and> remaining s = 1"
    by (auto simp: filtered_def remaining_def)
  from 1 2 3 show ?thesis by blast
qed

theorem filtered_remaining_spec_witness:
  "filtered \<lparr>todos = [\<lparr>todo_id = 1::nat, title = ascii ''a'', completed = True\<rparr>,
                      \<lparr>todo_id = 2, title = ascii ''b'', completed = False\<rparr>],
             newTitle = [], filterV = Active, loading = False, error = [], sent = []\<rparr>
     = [\<lparr>todo_id = 2, title = ascii ''b'', completed = False\<rparr>] \<and>
   remaining \<lparr>todos = [\<lparr>todo_id = 1::nat, title = ascii ''a'', completed = True\<rparr>,
                      \<lparr>todo_id = 2, title = ascii ''b'', completed = False\<rparr>],
             newTitle = [], filterV = Active, loading = False, error = [], sent = []\<rparr> = 1"
proof -
  let ?a = "\<lparr>todo_id = 1::nat, title = ascii ''a'', completed = True\<rparr>"
  let ?b = "\<lparr>todo_id = 2::nat, title = ascii ''b'', completed = False\<rparr>"
  let ?s = "\<lparr>todos = [?a, ?b], newTitle = [], filterV = Active, loading = False,
            error = [], sent = []\<rparr>"
  have "filterV ?s = Active \<and> completed ?a \<and> \<not> completed ?b \<and>
        (todos ?s = [?a, ?b] \<or> todos ?s = [?b, ?a])"
    by simp
  with filtered_remaining_spec [of ?s ?a ?b] show ?thesis
    by blast
qed

subsection \<open>Creating with a blank title\<close>

text \<open>
  C7. When the title draft consists of white space only, \<open>addTodo\<close> leaves the whole
  state as it is: the collection, the loading flag, the error message, and the list of
  requests issued, so no request is made.
\<close>

theorem addTodo_whitespace_noop:
  "list_all is_white_space (newTitle s) \<Longrightarrow> addTodo r s = s"
  by (simp add: addTodo_def trim_empty_iff)

theorem addTodo_whitespace_noop_witness:
  "list_all is_white_space (ascii ''  '') \<and>
   addTodo (Resolved True (Inr \<lparr>todo_id = 7::nat, title = [], completed = False\<rparr>))
      \<lparr>todos = [], newTitle = ascii ''  '', filterV = All, loading = False,
       error = ascii ''old'', sent = []\<rparr>
     = \<lparr>todos = [], newTitle = ascii ''  '', filterV = All, loading = False,
        error = ascii ''old'', sent = []\<rparr>"
proof -
  have h: "list_all is_white_space (newTitle
      \<lparr>todos = ([] :: nat todo list), newTitle = ascii ''  '', filterV = All, loading = False,
       error = ascii ''old'', sent = []\<rparr>)"
    by (simp add: ascii_def is_white_space_def)
  show ?thesis
    using h addTodo_whitespace_noop [OF h,
        of "Resolved True (Inr \<lparr>todo_id = 7::nat, title = [], completed = False\<rparr>)"]
    by simp
qed

subsection \<open>Clearing with nothing completed\<close>

text \<open>
  C8. When no item is completed, \<open>clearCompleted\<close> leaves the whole state as it is:
  the collection, the error message, and the list of requests issued.
\<close>

theorem clearCompleted_nothing_completed:
  "\<forall>t\<in>set (todos s). \<not> completed t \<Longrightarrow> clearCompleted rs s = s"
  by (simp add: clearCompleted_def)

theorem clearCompleted_nothing_completed_witness:
  "clearCompleted (\<lambda>k. Rejected (ascii ''down'') :: unit fetch_result)
      \<lparr>todos = [\<lparr>todo_id = 1::nat, title = ascii ''a'', completed = False\<rparr>],
       newTitle = [], filterV = All, loading = False, error = ascii ''old'', sent = []\<rparr>
     = \<lparr>todos = [\<lparr>todo_id = 1::nat, title = ascii ''a'', completed = False\<rparr>],
        newTitle = [], filterV = All, loading = False, error = ascii ''old'', sent = []\<rparr>"
proof -
  have h: "\<forall>t\<in>set (todos
      \<lparr>todos = [\<lparr>todo_id = 1::nat, title = ascii ''a'', completed = False\<rparr>],
       newTitle = [], filterV = All, loading = False, error = ascii ''old'', sent = []\<rparr>).
      \<not> completed t"
    by simp
  show ?thesis
    using clearCompleted_nothing_completed [OF h,
        of "\<lambda>k. Rejected (ascii ''down'') :: unit fetch_result"]
    by simp
qed

subsection \<open>The optimistic removal of a delete\<close>

text \<open>
  C10. Before the request resolves, \<open>deleteTodo\<close> has removed every item with the
  identifier: none is left, the collection is a subsequence of the one from before (the
  order of what remains is kept), and every item with another identifier occurs as often
  as before.
\<close>

theorem deleteTodo_begin_removes_all:
  "(\<forall>t\<in>set (todos (deleteTodo_begin i s)). todo_id t \<noteq> i) \<and>
   subseq (todos (deleteTodo_begin i s)) (todos s) \<and>
   (\<forall>t. todo_id t \<noteq> i \<longrightarrow>
      count_list (todos (deleteTodo_begin i s)) t = count_list (todos s) t)"
proof -
  have "count_list (filter (\<lambda>t. todo_id t \<noteq> i) xs) t = count_list xs t"
    if "todo_id t \<noteq> i" for xs :: "'a todo list" and t
    using that by (induction xs) auto
  then show ?thesis
    by (simp add: deleteTodo_begin_def)
qed

theorem deleteTodo_begin_removes_all_witness:
  "todos (deleteTodo_begin (1::nat)
      \<lparr>todos = [\<lparr>todo_id = 1, title = ascii ''a'', completed = False\<rparr>,
                \<lparr>todo_id = 2, title = ascii ''b'', completed = False\<rparr>,
                \<lparr>todo_id = 1, title = ascii ''c'', completed = True\<rparr>,
                \<lparr>todo_id = 3, title = ascii ''d'', completed = True\<rparr>],
       newTitle = [], filterV = All, loading = False, error = [], sent = []\<rparr>)
     = [\<lparr>todo_id = 2, title = ascii ''b'', completed = False\<rparr>,
        \<lparr>todo_id = 3, title = ascii ''d'', completed = True\<rparr>] \<and>
   subseq [\<lparr>todo_id = 2::nat, title = ascii ''b'', completed = False\<rparr>,
           \<lparr>todo_id = 3, title = ascii ''d'', completed = True\<rparr>]
          [\<lparr>todo_id = 1, title = ascii ''a'', completed = False\<rparr>,
           \<lparr>todo_id = 2, title = ascii ''b'', completed = False\<rparr>,
           \<lparr>todo_id = 1, title = ascii ''c'', completed = True\<rparr>,
           \<lparr>todo_id = 3, title = ascii ''d'', completed = True\<rparr>]"
  using deleteTodo_begin_removes_all [of "1::nat"
      "\<lparr>todos = [\<lparr>todo_id = 1, title = ascii ''a'', completed = False\<rparr>,
                \<lparr>todo_id = 2, title = ascii ''b'', completed = False\<rparr>,
                \<lparr>todo_id = 1, title = ascii ''c'', completed = True\<rparr>,
                \<lparr>todo_id = 3, title = ascii ''d'', completed = True\<rparr>],
        newTitle = [], filterV = All, loading = False, error = [], sent = []\<rparr>"]
  by (simp add: deleteTodo_begin_def)

end
